theory Spec2Isabelle
  imports Main
begin

section \<open>The JIT compiler facade of ART (compiler/jit/jit_compiler.cc)\<close>

text \<open>
  A shallow embedding of \<^verbatim>\<open>JitCompiler\<close>: the configuration resolver
  \<^verbatim>\<open>JitCompiler::ParseCompilerOptions\<close>, the constructor, the entry points
  \<^verbatim>\<open>jit_load\<close> and \<^verbatim>\<open>jit_update_options\<close>, and
  \<^verbatim>\<open>JitCompiler::CompileMethod\<close>.

  The file under study calls into classes whose code lives elsewhere
  (\<^verbatim>\<open>CompilerOptions\<close>, \<^verbatim>\<open>InstructionSetFeatures\<close>, \<^verbatim>\<open>Runtime\<close>,
  \<^verbatim>\<open>CompilerDriver\<close>, the backend). Their behaviour is a parameter of the model:
  the record \<open>collaborators\<close> holds one field per external function or constant, and
  every theorem is stated for an arbitrary value of that record.
\<close>

subsection \<open>Data\<close>

text \<open>The enum \<^verbatim>\<open>InstructionSet\<close>; the source names \<^verbatim>\<open>kArm\<close> and \<^verbatim>\<open>kThumb2\<close>.\<close>

datatype InstructionSet = kNone | kArm | kArm64 | kThumb2 | kX86 | kX86_64 | kMips | kMips64

text \<open>
  The fields of \<^verbatim>\<open>CompilerOptions\<close> that the source reads or writes. The feature set is
  a \<^verbatim>\<open>std::unique_ptr\<close>: \<open>None\<close> is the null pointer. The type \<open>'f\<close> is the type of
  feature sets (\<^verbatim>\<open>InstructionSetFeatures\<close>).
\<close>

record 'f CompilerOptions =
  inline_max_code_units :: nat
  compile_pic :: bool
  debuggable :: bool
  generate_debug_info :: bool
  instruction_set :: InstructionSet
  instruction_set_features :: "'f option"
  compiling_with_core_image :: bool

text \<open>What the source asks of \<^verbatim>\<open>Runtime::Current()\<close> while resolving the configuration.\<close>

record Runtime =
  GetCompilerOptions :: "string list"
  IsJavaDebuggable :: bool
  GetImageLocation :: string

record JitLogger =
  log_open :: bool

datatype CompilerKind = kQuick | kOptimizing

record CompilerDriver =
  compiler_kind :: CompilerKind
  thread_count :: nat
  swap_fd :: int
  dedupe_enabled :: bool

record 'f JitCompiler =
  compiler_options :: "'f CompilerOptions"
  compiler_driver :: "CompilerDriver option"
  jit_logger :: "JitLogger option"

text \<open>
  The ways a call can end without returning: \<^verbatim>\<open>LOG(FATAL)\<close> with its message, a failed
  \<^verbatim>\<open>DCHECK\<close> (debug builds only), and a call through a null pointer.
\<close>

datatype fault = Fatal string | DCheckFailure | NullDereference

text \<open>
  The external functions and constants. \<open>ParseOptions\<close> is
  \<^verbatim>\<open>CompilerOptions::ParseCompilerOptions(options, ignore_unrecognized, &error_msg)\<close>:
  it returns the error message, or the options it has updated. \<open>FromVariant\<close> and
  \<open>AddFeaturesFromString\<close> return a null pointer and set the error message on failure
  (\<open>Inl\<close>); \<open>FromCppDefines\<close> takes no error message and returns a feature set.
\<close>

record 'f collaborators =
  kRuntimeISA :: InstructionSet
  kIsDebugBuild :: bool
  kDefaultInlineMaxCodeUnits :: nat
  CompilerOptions_new :: "'f CompilerOptions"
  ParseOptions :: "string list \<Rightarrow> bool \<Rightarrow> 'f CompilerOptions \<Rightarrow> string + 'f CompilerOptions"
  FromVariant :: "InstructionSet \<Rightarrow> string \<Rightarrow> string + 'f"
  AddFeaturesFromString :: "'f \<Rightarrow> string \<Rightarrow> string + 'f"
  FromCppDefines :: 'f
  IsCoreImageFilename :: "string \<Rightarrow> bool"

subsection \<open>String helpers\<close>

text \<open>\<^verbatim>\<open>StringPiece::starts_with\<close>.\<close>

fun starts_with :: "string \<Rightarrow> string \<Rightarrow> bool" where
  "starts_with s [] = True"
| "starts_with [] (p # ps) = False"
| "starts_with (c # s) (p # ps) = (c = p \<and> starts_with s ps)"

definition variant_prefix :: string where
  "variant_prefix = ''--instruction-set-variant=''"

definition features_prefix :: string where
  "features_prefix = ''--instruction-set-features=''"

text \<open>
  \<^verbatim>\<open>StringPiece str = option.substr(strlen(prefix)).data();\<close> The \<^verbatim>\<open>data()\<close> pointer is
  converted back to a \<^verbatim>\<open>StringPiece\<close> as a C string, so the value ends at the first
  NUL character (the end of the \<^verbatim>\<open>std::string\<close> if it holds none).
\<close>

definition c_str :: "string \<Rightarrow> string" where
  "c_str s = takeWhile (\<lambda>c. c \<noteq> CHR 0x00) s"

definition option_value :: "string \<Rightarrow> string \<Rightarrow> string" where
  "option_value prefix option = c_str (drop (length prefix) option)"

text \<open>\<^verbatim>\<open>LOG(WARNING) << "Error parsing " << option << " message=" << error_msg\<close>.\<close>

definition parse_warning :: "string \<Rightarrow> string \<Rightarrow> string" where
  "parse_warning option error_msg = ''Error parsing '' @ option @ '' message='' @ error_msg"

subsection \<open>The configuration resolver\<close>

text \<open>
  Modelled from the spec: the setters \<^verbatim>\<open>SetInlineMaxCodeUnits\<close>, \<^verbatim>\<open>SetNonPic\<close> and
  \<^verbatim>\<open>SetDebuggable\<close> of \<^verbatim>\<open>CompilerOptions\<close> are declared in
  \<^verbatim>\<open>driver/compiler_options.h\<close>, outside this file. They are the plain setters their
  names say: the inline budget is stored, "use position independent code" is forced to
  false ("JIT is never PIC"), the debuggable flag is stored.
\<close>

definition SetInlineMaxCodeUnits :: "nat \<Rightarrow> 'f CompilerOptions \<Rightarrow> 'f CompilerOptions" where
  "SetInlineMaxCodeUnits units opts = opts\<lparr>inline_max_code_units := units\<rparr>"

definition SetNonPic :: "'f CompilerOptions \<Rightarrow> 'f CompilerOptions" where
  "SetNonPic opts = opts\<lparr>compile_pic := False\<rparr>"

definition SetDebuggable :: "bool \<Rightarrow> 'f CompilerOptions \<Rightarrow> 'f CompilerOptions" where
  "SetDebuggable b opts = opts\<lparr>debuggable := b\<rparr>"

text \<open>
  The instruction set that the assertion of lines 67 to 72 expects: \<^verbatim>\<open>kThumb2\<close> when
  the runtime is \<^verbatim>\<open>kArm\<close>, the runtime's own otherwise.
\<close>

definition runtime_isa_alias :: "'f collaborators \<Rightarrow> InstructionSet" where
  "runtime_isa_alias ext = (if kRuntimeISA ext = kArm then kThumb2 else kRuntimeISA ext)"

text \<open>
  Lines 47 to 72 of the source: the inline budget, the structured parse with
  \<^verbatim>\<open>ignore_unrecognized\<close> set to \<^verbatim>\<open>true\<close> and \<^verbatim>\<open>LOG(FATAL)\<close> on its failure,
  \<^verbatim>\<open>SetNonPic\<close>, the debuggable default, and the \<^verbatim>\<open>DCHECK_EQ\<close> on the instruction
  set, which is compiled in debug builds only.
\<close>

definition baseline_options ::
  "'f collaborators \<Rightarrow> Runtime \<Rightarrow> 'f CompilerOptions \<Rightarrow> fault + 'f CompilerOptions" where
  "baseline_options ext runtime opts =
     (case ParseOptions ext (GetCompilerOptions runtime) True
             (SetInlineMaxCodeUnits (kDefaultInlineMaxCodeUnits ext) opts) of
        Inl error_msg \<Rightarrow> Inl (Fatal error_msg)
      | Inr parsed \<Rightarrow>
          (let non_pic = SetNonPic parsed;
               dbg = (if \<not> debuggable non_pic
                      then SetDebuggable (IsJavaDebuggable runtime) non_pic
                      else non_pic)
           in if kIsDebugBuild ext \<and> instruction_set dbg \<noteq> runtime_isa_alias ext
              then Inl DCheckFailure
              else Inr dbg))"

text \<open>
  One iteration of the loop of lines 74 to 101. The state is the pointer
  \<^verbatim>\<open>instruction_set_features\<close> and the warnings logged so far. In the features branch
  the pointer is dereferenced whatever the outcome of the "default" baseline.
\<close>

definition scan_option ::
  "'f collaborators \<Rightarrow> InstructionSet \<Rightarrow> 'f option \<times> string list \<Rightarrow> string
     \<Rightarrow> fault + ('f option \<times> string list)" where
  "scan_option ext isa st option =
     (let features = fst st; warnings = snd st in
      if starts_with option variant_prefix then
        (case FromVariant ext isa (option_value variant_prefix option) of
           Inr f \<Rightarrow> Inr (Some f, warnings)
         | Inl error_msg \<Rightarrow> Inr (None, warnings @ [parse_warning option error_msg]))
      else if starts_with option features_prefix then
        (let str = option_value features_prefix option;
             based = (case features of
                        Some f \<Rightarrow> (Some f, warnings)
                      | None \<Rightarrow>
                          (case FromVariant ext isa ''default'' of
                             Inr f \<Rightarrow> (Some f, warnings)
                           | Inl error_msg \<Rightarrow>
                               (None, warnings @ [parse_warning option error_msg])))
         in case fst based of
              None \<Rightarrow> Inl NullDereference
            | Some f \<Rightarrow>
                (case AddFeaturesFromString ext f str of
                   Inr f' \<Rightarrow> Inr (Some f', snd based)
                 | Inl error_msg \<Rightarrow>
                     Inr (None, snd based @ [parse_warning option error_msg])))
      else Inr st)"

fun scan_options ::
  "'f collaborators \<Rightarrow> InstructionSet \<Rightarrow> 'f option \<times> string list \<Rightarrow> string list
     \<Rightarrow> fault + ('f option \<times> string list)" where
  "scan_options ext isa st [] = Inr st"
| "scan_options ext isa st (option # rest) =
     (case scan_option ext isa st option of
        Inl f \<Rightarrow> Inl f
      | Inr st' \<Rightarrow> scan_options ext isa st' rest)"

text \<open>
  Lines 73 to 104: the loop from a null pointer, then \<^verbatim>\<open>FromCppDefines\<close> if the
  pointer is null at the end. The result is the feature set to install and the warnings.
\<close>

definition ResolveFeatures ::
  "'f collaborators \<Rightarrow> InstructionSet \<Rightarrow> string list \<Rightarrow> fault + ('f \<times> string list)" where
  "ResolveFeatures ext isa options =
     (case scan_options ext isa (None, []) options of
        Inl f \<Rightarrow> Inl f
      | Inr st \<Rightarrow>
          Inr (case fst st of None \<Rightarrow> FromCppDefines ext | Some f \<Rightarrow> f, snd st))"

text \<open>
  \<^verbatim>\<open>JitCompiler::ParseCompilerOptions\<close>. It returns the updated object and the warnings
  it logged.
\<close>

definition ParseCompilerOptions ::
  "'f collaborators \<Rightarrow> Runtime \<Rightarrow> 'f JitCompiler \<Rightarrow> fault + ('f JitCompiler \<times> string list)" where
  "ParseCompilerOptions ext runtime jc =
     (case baseline_options ext runtime (compiler_options jc) of
        Inl f \<Rightarrow> Inl f
      | Inr opts \<Rightarrow>
          (case ResolveFeatures ext (instruction_set opts) (GetCompilerOptions runtime) of
             Inl f \<Rightarrow> Inl f
           | Inr res \<Rightarrow>
               (let opts' = opts\<lparr>instruction_set_features := Some (fst res),
                                 compiling_with_core_image :=
                                   IsCoreImageFilename ext (GetImageLocation runtime)\<rparr>
                in Inr (jc\<lparr>compiler_options := opts',
                           jit_logger := (if generate_debug_info opts'
                                           then Some \<lparr>log_open = True\<rparr>
                                           else jit_logger jc)\<rparr>,
                        snd res))))"

text \<open>The feature set a run of the resolver leaves in the configuration.\<close>

definition resolved_features ::
  "'f collaborators \<Rightarrow> Runtime \<Rightarrow> 'f JitCompiler \<Rightarrow> fault + 'f option" where
  "resolved_features ext runtime jc =
     (case ParseCompilerOptions ext runtime jc of
        Inl f \<Rightarrow> Inl f
      | Inr res \<Rightarrow> Inr (instruction_set_features (compiler_options (fst res))))"

text \<open>The options that the loop looks at: those with one of the two prefixes.\<close>

definition feature_option :: "string \<Rightarrow> bool" where
  "feature_option option =
     (starts_with option variant_prefix \<or> starts_with option features_prefix)"

text \<open>
  The error message with which the loop rejects an option, given the feature set built so
  far: a variant that \<^verbatim>\<open>FromVariant\<close> refuses, or features that
  \<^verbatim>\<open>AddFeaturesFromString\<close> refuses on the baseline at hand (the set built so far, or
  "default" when there is none). A features option for which no baseline exists is not
  covered: there the loop goes through the null pointer.
\<close>

definition rejected_with ::
  "'f collaborators \<Rightarrow> InstructionSet \<Rightarrow> 'f option \<Rightarrow> string \<Rightarrow> string option" where
  "rejected_with ext isa features option =
     (if starts_with option variant_prefix then
        (case FromVariant ext isa (option_value variant_prefix option) of
           Inl error_msg \<Rightarrow> Some error_msg
         | Inr f \<Rightarrow> None)
      else if starts_with option features_prefix then
        (case (case features of
                 Some f \<Rightarrow> Inr f
               | None \<Rightarrow> FromVariant ext isa ''default'') of
           Inl error_msg \<Rightarrow> None
         | Inr base \<Rightarrow>
             (case AddFeaturesFromString ext base (option_value features_prefix option) of
                Inl error_msg \<Rightarrow> Some error_msg
              | Inr f \<Rightarrow> None))
      else None)"

text \<open>
  The debuggable flag as the specification words it, to be compared with the code: the
  value the structured parse set explicitly if it set one, the host's live state
  otherwise.
\<close>

definition specified_debuggable :: "bool option \<Rightarrow> bool \<Rightarrow> bool" where
  "specified_debuggable explicit host =
     (case explicit of Some b \<Rightarrow> b | None \<Rightarrow> host)"

text \<open>
  Modelled from the spec: the constructor of \<^verbatim>\<open>CompilerDriver\<close> and
  \<^verbatim>\<open>SetDedupeEnabled\<close> are declared in \<^verbatim>\<open>driver/compiler_driver.h\<close>, outside
  this file. A new driver records its arguments and deduplicates artifacts until it is
  told otherwise.
\<close>

definition CompilerDriver_new :: "CompilerKind \<Rightarrow> nat \<Rightarrow> int \<Rightarrow> CompilerDriver" where
  "CompilerDriver_new kind threads fd =
     \<lparr>compiler_kind = kind, thread_count = threads, swap_fd = fd, dedupe_enabled = True\<rparr>"

definition SetDedupeEnabled :: "bool \<Rightarrow> CompilerDriver \<Rightarrow> CompilerDriver" where
  "SetDedupeEnabled b driver = driver\<lparr>dedupe_enabled := b\<rparr>"

text \<open>
  The constructor (lines 168 to 179), \<^verbatim>\<open>jit_load\<close> and \<^verbatim>\<open>jit_update_options\<close>.
  The \<^verbatim>\<open>CHECK\<close> of \<^verbatim>\<open>jit_load\<close> cannot fail: \<^verbatim>\<open>new\<close> does not return null.
\<close>

definition JitCompiler_new ::
  "'f collaborators \<Rightarrow> Runtime \<Rightarrow> fault + ('f JitCompiler \<times> string list)" where
  "JitCompiler_new ext runtime =
     (case ParseCompilerOptions ext runtime
             \<lparr>compiler_options = CompilerOptions_new ext,
              compiler_driver = None, jit_logger = None\<rparr> of
        Inl f \<Rightarrow> Inl f
      | Inr res \<Rightarrow>
          Inr ((fst res)\<lparr>compiler_driver :=
                 Some (SetDedupeEnabled False (CompilerDriver_new kOptimizing 1 (- 1)))\<rparr>,
               snd res))"

definition jit_load ::
  "'f collaborators \<Rightarrow> Runtime \<Rightarrow> fault + ('f JitCompiler \<times> string list)" where
  "jit_load ext runtime = JitCompiler_new ext runtime"

definition jit_update_options ::
  "'f collaborators \<Rightarrow> Runtime \<Rightarrow> 'f JitCompiler \<Rightarrow> fault + ('f JitCompiler \<times> string list)" where
  "jit_update_options ext runtime handle = ParseCompilerOptions ext runtime handle"

subsection \<open>Compiling a method\<close>

text \<open>
  What \<^verbatim>\<open>CompileMethod\<close> reads of its arguments: the two assertions on the method and
  \<^verbatim>\<open>AssertNoPendingException\<close> on the thread.
\<close>

record ArtMethod =
  method_index :: nat
  IsProxyMethod :: bool
  declaring_class_resolved :: bool

record Thread =
  thread_id :: nat
  IsExceptionPending :: bool

text \<open>
  A \<^verbatim>\<open>TimingLogger\<close> holds the sequence of timings started and ended on it:
  \<^verbatim>\<open>ScopedTiming\<close> starts one when it is constructed and ends it at the end of its
  block. Clock values are left out.
\<close>

datatype timing = StartTiming string | EndTiming

datatype TimingKind = kMonotonic | kThreadCpu

record TimingLogger =
  logger_name :: string
  precise :: bool
  verbose :: bool
  timing_kind :: TimingKind
  timings :: "timing list"

text \<open>
  Modelled from the spec: \<^verbatim>\<open>Thread::AssertNoPendingException\<close> is declared in
  \<^verbatim>\<open>thread.h\<close>, outside this file. "The calling execution context has no unhandled
  fault pending" is a precondition of the call; the assertion is taken to end the call
  when an exception is pending, in every build.
\<close>

definition AssertNoPendingException :: "Thread \<Rightarrow> fault option" where
  "AssertNoPendingException self =
     (if IsExceptionPending self then Some (Fatal ''No pending exception expected'') else None)"

text \<open>
  The arguments of \<^verbatim>\<open>Compiler::JitCompile\<close>, together with the kind of compiler the
  driver was built with. The backend is the function \<open>JitCompile\<close>, from these arguments
  to its verdict and the code cache it leaves.
\<close>

record 'c JitCompileArgs =
  arg_compiler :: CompilerKind
  arg_self :: Thread
  arg_code_cache :: 'c
  arg_method :: ArtMethod
  arg_baseline :: bool
  arg_osr :: bool
  arg_jit_logger :: "JitLogger option"

text \<open>
  The part of the runtime that \<^verbatim>\<open>CompileMethod\<close> acts on: the code cache of the JIT,
  and the calls made on the backend, on the arena pool and on \<^verbatim>\<open>Jit::AddTimingLogger\<close>,
  in the order they were made.
\<close>

datatype 'c call =
  JitCompileCall "'c JitCompileArgs"
| TrimMapsCall
| AddTimingLoggerCall TimingLogger

record 'c JitRuntime =
  code_cache :: 'c
  calls :: "'c call list"
  vlog_jit :: bool

definition CompileMethod ::
  "'f collaborators \<Rightarrow> ('c JitCompileArgs \<Rightarrow> bool \<times> 'c) \<Rightarrow> 'f JitCompiler \<Rightarrow> 'c JitRuntime
     \<Rightarrow> Thread \<Rightarrow> ArtMethod \<Rightarrow> bool \<Rightarrow> fault + (bool \<times> 'c JitRuntime)" where
  "CompileMethod ext JitCompile jc runtime self method osr =
     (if kIsDebugBuild ext \<and> IsProxyMethod method then Inl DCheckFailure
      else if kIsDebugBuild ext \<and> \<not> declaring_class_resolved method then Inl DCheckFailure
      else
        (case AssertNoPendingException self of
           Some f \<Rightarrow> Inl f
         | None \<Rightarrow>
        (case compiler_driver jc of
           None \<Rightarrow> Inl NullDereference
         | Some driver \<Rightarrow>
             (let logger0 = \<lparr>logger_name = ''JIT compiler timing logger'', precise = True,
                             verbose = vlog_jit runtime, timing_kind = kThreadCpu,
                             timings = []\<rparr>;
                  logger1 = logger0\<lparr>timings := timings logger0 @ [StartTiming ''Compiling'']\<rparr>;
                  args = \<lparr>arg_compiler = compiler_kind driver, arg_self = self,
                          arg_code_cache = code_cache runtime, arg_method = method,
                          arg_baseline = False, arg_osr = osr,
                          arg_jit_logger = jit_logger jc\<rparr>;
                  outcome = JitCompile args;
                  success = fst outcome;
                  runtime1 = runtime\<lparr>code_cache := snd outcome,
                                     calls := calls runtime @ [JitCompileCall args]\<rparr>;
                  logger2 = logger1\<lparr>timings := timings logger1 @ [EndTiming]\<rparr>;
                  logger3 = logger2\<lparr>timings := timings logger2 @ [StartTiming ''TrimMaps'']\<rparr>;
                  runtime2 = runtime1\<lparr>calls := calls runtime1 @ [TrimMapsCall]\<rparr>;
                  logger4 = logger3\<lparr>timings := timings logger3 @ [EndTiming]\<rparr>;
                  runtime3 = runtime2\<lparr>calls := calls runtime2 @ [AddTimingLoggerCall logger4]\<rparr>
              in Inr (success, runtime3)))))"

definition jit_compile_method ::
  "'f collaborators \<Rightarrow> ('c JitCompileArgs \<Rightarrow> bool \<times> 'c) \<Rightarrow> 'f JitCompiler \<Rightarrow> 'c JitRuntime
     \<Rightarrow> ArtMethod \<Rightarrow> Thread \<Rightarrow> bool \<Rightarrow> fault + (bool \<times> 'c JitRuntime)" where
  "jit_compile_method ext JitCompile handle runtime method self osr =
     CompileMethod ext JitCompile handle runtime self method osr"

text \<open>The calls of a trace that reach the backend.\<close>

fun backend_calls :: "'c call list \<Rightarrow> 'c JitCompileArgs list" where
  "backend_calls [] = []"
| "backend_calls (JitCompileCall args # cs) = args # backend_calls cs"
| "backend_calls (TrimMapsCall # cs) = backend_calls cs"
| "backend_calls (AddTimingLoggerCall logger # cs) = backend_calls cs"

subsection \<open>The store of compiled artifacts\<close>

text \<open>
  Modelled from the spec: the store in which the backend binding keeps the code of
  compiled methods (\<^verbatim>\<open>CompilerDriver\<close> and its storage are outside this file). An entry
  is the generated bytes and the methods that use them. With deduplication a method whose
  code is byte-identical to a stored entry shares that entry; without it every method gets
  an entry of its own. Evicting a method releases the entry it uses.
\<close>

type_synonym artifact_entry = "nat list \<times> nat list"

fun store_artifact ::
  "CompilerDriver \<Rightarrow> nat \<Rightarrow> nat list \<Rightarrow> artifact_entry list \<Rightarrow> artifact_entry list" where
  "store_artifact driver m code [] = [([m], code)]"
| "store_artifact driver m code (e # es) =
     (if dedupe_enabled driver \<and> snd e = code
      then (m # fst e, snd e) # es
      else e # store_artifact driver m code es)"

definition evict_artifact :: "nat \<Rightarrow> artifact_entry list \<Rightarrow> artifact_entry list" where
  "evict_artifact m es = filter (\<lambda>e. m \<notin> set (fst e)) es"

subsection \<open>The structured parser\<close>

text \<open>
  Modelled from the spec: the generic structured parser
  (\<^verbatim>\<open>CompilerOptions::ParseCompilerOptions\<close>, outside this file). Each token is
  unrecognized, recognized but malformed (with the error message), or recognized, and
  then it updates the options. "Unrecognized tokens are tolerated or rejected per the
  ignore flag"; any failure ends the parse with its message.
\<close>

datatype 'f token_kind =
  Unrecognized
| Malformed string
| Recognized "'f CompilerOptions \<Rightarrow> 'f CompilerOptions"

fun structured_parse ::
  "(string \<Rightarrow> 'f token_kind) \<Rightarrow> string list \<Rightarrow> bool \<Rightarrow> 'f CompilerOptions
     \<Rightarrow> string + 'f CompilerOptions" where
  "structured_parse classify [] ignore_unrecognized opts = Inr opts"
| "structured_parse classify (token # rest) ignore_unrecognized opts =
     (case classify token of
        Unrecognized \<Rightarrow>
          (if ignore_unrecognized
           then structured_parse classify rest ignore_unrecognized opts
           else Inl (''Unknown argument: '' @ token))
      | Malformed error_msg \<Rightarrow> Inl error_msg
      | Recognized update \<Rightarrow> structured_parse classify rest ignore_unrecognized (update opts))"

subsection \<open>A small instance of the collaborators\<close>

text \<open>
  Modelled from the spec: a feature set is "a baseline variant name plus an overlay of
  explicitly toggled capability flags" (\<^verbatim>\<open>InstructionSetFeatures\<close> is outside this
  file). This instance knows two variants and two flags, recognizes four structured
  options, and runs on x86. It serves to run the model on concrete tokens.
\<close>

record FeatureSet =
  variant :: string
  overlay :: "string list"

definition demo_FromVariant :: "InstructionSet \<Rightarrow> string \<Rightarrow> string + FeatureSet" where
  "demo_FromVariant isa v =
     (if v = ''default'' \<or> v = ''silvermont''
      then Inr \<lparr>variant = v, overlay = []\<rparr>
      else Inl (''Unknown variant '' @ v))"

definition demo_AddFeaturesFromString :: "FeatureSet \<Rightarrow> string \<Rightarrow> string + FeatureSet" where
  "demo_AddFeaturesFromString f s =
     (if s = ''avx'' \<or> s = ''popcnt''
      then Inr (f\<lparr>overlay := overlay f @ [s]\<rparr>)
      else Inl (''Unknown feature '' @ s))"

definition demo_classify :: "string \<Rightarrow> FeatureSet token_kind" where
  "demo_classify token =
     (if token = ''--debuggable'' then Recognized (SetDebuggable True)
      else if token = ''--compile-pic'' then Recognized (\<lambda>opts. opts\<lparr>compile_pic := True\<rparr>)
      else if token = ''-g'' then Recognized (\<lambda>opts. opts\<lparr>generate_debug_info := True\<rparr>)
      else if token = ''--inline-max-code-units=x'' then Malformed ''Failed to parse x''
      else Unrecognized)"

definition demo_options :: "FeatureSet CompilerOptions" where
  "demo_options =
     \<lparr>inline_max_code_units = 0, compile_pic = True, debuggable = False,
      generate_debug_info = False, instruction_set = kX86,
      instruction_set_features = None, compiling_with_core_image = False\<rparr>"

definition demo_ext :: "FeatureSet collaborators" where
  "demo_ext =
     \<lparr>kRuntimeISA = kX86, kIsDebugBuild = True, kDefaultInlineMaxCodeUnits = 32,
      CompilerOptions_new = demo_options,
      ParseOptions = structured_parse demo_classify,
      FromVariant = demo_FromVariant,
      AddFeaturesFromString = demo_AddFeaturesFromString,
      FromCppDefines = \<lparr>variant = ''host'', overlay = []\<rparr>,
      IsCoreImageFilename = (\<lambda>location. False)\<rparr>"

definition demo_runtime :: "string list \<Rightarrow> bool \<Rightarrow> Runtime" where
  "demo_runtime tokens dbg =
     \<lparr>GetCompilerOptions = tokens, IsJavaDebuggable = dbg, GetImageLocation = ''boot.art''\<rparr>"

definition demo_handle :: "FeatureSet JitCompiler" where
  "demo_handle =
     \<lparr>compiler_options = demo_options, compiler_driver = None, jit_logger = None\<rparr>"

section \<open>Properties\<close>

subsection \<open>The loop over the options\<close>

lemma starts_with_append: "starts_with (p @ x) p"
  by (induction p) simp_all

lemma features_prefix_not_variant: "\<not> starts_with (features_prefix @ x) variant_prefix"
  by (simp add: features_prefix_def variant_prefix_def)

lemma c_str_no_nul: "CHR 0x00 \<notin> set x \<Longrightarrow> c_str x = x"
  unfolding c_str_def by (induction x) auto

lemma option_value_append: "CHR 0x00 \<notin> set x \<Longrightarrow> option_value p (p @ x) = x"
  by (simp add: option_value_def c_str_no_nul)

lemma scan_option_other: "\<not> feature_option t \<Longrightarrow> scan_option ext isa st t = Inr st"
  by (simp add: scan_option_def feature_option_def)

lemma scan_options_append:
  "scan_options ext isa st (xs @ ys) =
     (case scan_options ext isa st xs of Inl f \<Rightarrow> Inl f | Inr st' \<Rightarrow> scan_options ext isa st' ys)"
  by (induction xs arbitrary: st) (simp_all split: sum.splits)

lemma scan_options_others:
  "list_all (\<lambda>t. \<not> feature_option t) ts \<Longrightarrow> scan_options ext isa st ts = Inr st"
  by (induction ts) (simp_all add: scan_option_other)

lemma scan_option_fault: "scan_option ext isa st t = Inl f \<Longrightarrow> f = NullDereference"
  by (auto simp: scan_option_def Let_def split: if_splits sum.splits option.splits)

lemma scan_options_fault: "scan_options ext isa st ts = Inl f \<Longrightarrow> f = NullDereference"
  by (induction ts arbitrary: st) (auto split: sum.splits dest: scan_option_fault)

lemma scan_option_total:
  "FromVariant ext isa ''default'' = Inr d \<Longrightarrow> \<exists>st'. scan_option ext isa st t = Inr st'"
  by (auto simp: scan_option_def Let_def split: if_splits sum.splits option.splits)

lemma scan_options_total:
  "FromVariant ext isa ''default'' = Inr d \<Longrightarrow> \<exists>st'. scan_options ext isa st ts = Inr st'"
proof (induction ts arbitrary: st)
  case Nil
  then show ?case by simp
next
  case (Cons t ts)
  from scan_option_total [OF Cons.prems] obtain st' where "scan_option ext isa st t = Inr st'"
    by blast
  with Cons.IH [OF Cons.prems] show ?case by simp
qed

lemma scan_option_rejected:
  "rejected_with ext isa features t = Some e \<Longrightarrow>
   scan_option ext isa (features, warnings) t = Inr (None, warnings @ [parse_warning t e])"
  by (auto simp: scan_option_def rejected_with_def Let_def split: if_splits sum.splits option.splits)

lemma scan_option_warnings:
  "scan_option ext isa (features, warnings) t =
     map_sum id (\<lambda>st. (fst st, warnings @ snd st)) (scan_option ext isa (features, []) t)"
  by (auto simp: scan_option_def Let_def split: if_splits sum.splits option.splits)

lemma scan_options_warnings:
  "scan_options ext isa (features, warnings) ts =
     map_sum id (\<lambda>st. (fst st, warnings @ snd st)) (scan_options ext isa (features, []) ts)"
proof (induction ts arbitrary: features warnings)
  case Nil
  then show ?case by simp
next
  case (Cons t ts)
  show ?case
  proof (cases "scan_option ext isa (features, []) t")
    case (Inl f)
    then show ?thesis using scan_option_warnings [of ext isa features warnings t] by simp
  next
    case (Inr st')
    obtain fs ws where st': "st' = (fs, ws)" by (cases st')
    have step: "scan_option ext isa (features, warnings) t = Inr (fs, warnings @ ws)"
      using scan_option_warnings [of ext isa features warnings t] Inr st' by simp
    show ?thesis
      using Cons.IH [of fs "warnings @ ws"] Cons.IH [of fs ws] Inr st' step
      by (cases "scan_options ext isa (fs, []) ts") auto
  qed
qed


subsection \<open>The resolver, piece by piece\<close>

lemmas demo_defs = demo_ext_def demo_runtime_def demo_handle_def demo_options_def
  demo_classify_def demo_FromVariant_def demo_AddFeaturesFromString_def

lemmas resolver_defs = ParseCompilerOptions_def baseline_options_def ResolveFeatures_def
  scan_option_def SetNonPic_def SetDebuggable_def SetInlineMaxCodeUnits_def
  runtime_isa_alias_def option_value_def c_str_def variant_prefix_def features_prefix_def
  parse_warning_def

lemma baseline_options_Inr:
  assumes "baseline_options ext runtime opts = Inr dbg"
  shows "\<exists>parsed.
           ParseOptions ext (GetCompilerOptions runtime) True
             (SetInlineMaxCodeUnits (kDefaultInlineMaxCodeUnits ext) opts) = Inr parsed \<and>
           dbg = parsed\<lparr>compile_pic := False,
                         debuggable := (debuggable parsed \<or> IsJavaDebuggable runtime)\<rparr> \<and>
           (kIsDebugBuild ext \<longrightarrow> instruction_set parsed = runtime_isa_alias ext)"
  using assms
  by (auto simp: baseline_options_def Let_def SetNonPic_def SetDebuggable_def
           split: sum.splits if_splits)

lemma ParseCompilerOptions_Inr:
  assumes "ParseCompilerOptions ext runtime jc = Inr (jc', w)"
  shows "\<exists>opts features.
           baseline_options ext runtime (compiler_options jc) = Inr opts \<and>
           ResolveFeatures ext (instruction_set opts) (GetCompilerOptions runtime)
             = Inr (features, w) \<and>
           compiler_options jc' =
             opts\<lparr>instruction_set_features := Some features,
                   compiling_with_core_image :=
                     IsCoreImageFilename ext (GetImageLocation runtime)\<rparr>"
  using assms
  by (auto simp: ParseCompilerOptions_def Let_def split: sum.splits)

lemma ParseCompilerOptions_features:
  assumes "baseline_options ext runtime (compiler_options jc) = Inr opts"
    and "ResolveFeatures ext (instruction_set opts) (GetCompilerOptions runtime) = Inr (features, w)"
  shows "resolved_features ext runtime jc = Inr (Some features)"
  using assms by (simp add: resolved_features_def ParseCompilerOptions_def Let_def)

subsection \<open>Position independent code\<close>

text \<open>
  Claim C5. After every run of the resolver, at creation (\<^verbatim>\<open>jit_load\<close>) and at every
  \<^verbatim>\<open>jit_update_options\<close>, the configuration does not ask for position independent
  code, whatever the tokens and the structured parser did.
\<close>

theorem never_position_independent:
  "(jit_load ext runtime = Inr (jc', w) \<longrightarrow> \<not> compile_pic (compiler_options jc')) \<and>
   (jit_update_options ext runtime jc = Inr (jc', w) \<longrightarrow> \<not> compile_pic (compiler_options jc'))"
proof -
  have run: "\<not> compile_pic (compiler_options h')"
    if "ParseCompilerOptions ext runtime h = Inr (h', w')" for h h' w'
  proof -
    from ParseCompilerOptions_Inr [OF that] obtain opts features where
      b: "baseline_options ext runtime (compiler_options h) = Inr opts" and
      c: "compiler_options h' =
            opts\<lparr>instruction_set_features := Some features,
                  compiling_with_core_image :=
                    IsCoreImageFilename ext (GetImageLocation runtime)\<rparr>"
      by blast
    from baseline_options_Inr [OF b] have "\<not> compile_pic opts" by auto
    with c show ?thesis by simp
  qed
  have "\<not> compile_pic (compiler_options jc')" if "jit_load ext runtime = Inr (jc', w)"
  proof -
    from that obtain h where
      "ParseCompilerOptions ext runtime
         \<lparr>compiler_options = CompilerOptions_new ext, compiler_driver = None,
          jit_logger = None\<rparr> = Inr (h, w)"
      and "compiler_options jc' = compiler_options h"
      by (auto simp: jit_load_def JitCompiler_new_def split: sum.splits)
    with run show ?thesis by metis
  qed
  moreover have "\<not> compile_pic (compiler_options jc')"
    if "jit_update_options ext runtime jc = Inr (jc', w)"
    using that run by (simp add: jit_update_options_def)
  ultimately show ?thesis by blast
qed

theorem never_position_independent_witness:
  "\<not> isl (jit_load demo_ext (demo_runtime [''--compile-pic''] False)) \<and>
   \<not> compile_pic (compiler_options
       (fst (projr (jit_load demo_ext (demo_runtime [''--compile-pic''] False))))) \<and>
   \<not> isl (jit_update_options demo_ext (demo_runtime [''--compile-pic''] False) demo_handle) \<and>
   \<not> compile_pic (compiler_options
       (fst (projr (jit_update_options demo_ext (demo_runtime [''--compile-pic''] False)
          demo_handle))))"
proof -
  have "\<exists>h w. jit_load demo_ext (demo_runtime [''--compile-pic''] False) = Inr (h, w)"
    by (simp add: jit_load_def JitCompiler_new_def resolver_defs demo_defs)
  then obtain h w where
    l: "jit_load demo_ext (demo_runtime [''--compile-pic''] False) = Inr (h, w)"
    by blast
  have "\<exists>h w. jit_update_options demo_ext (demo_runtime [''--compile-pic''] False) demo_handle
          = Inr (h, w)"
    by (simp add: jit_update_options_def resolver_defs demo_defs)
  then obtain h' w' where
    u: "jit_update_options demo_ext (demo_runtime [''--compile-pic''] False) demo_handle
          = Inr (h', w')"
    by blast
  from never_position_independent
         [where ext = demo_ext and runtime = "demo_runtime [''--compile-pic''] False"
            and jc' = h and w = w]
    never_position_independent
         [where ext = demo_ext and runtime = "demo_runtime [''--compile-pic''] False"
            and jc = demo_handle and jc' = h' and w = w']
    l u show ?thesis by simp
qed

subsection \<open>The fallback to the capabilities of the build\<close>

text \<open>
  Claim C10. A run of the resolver that completes leaves a feature set in the
  configuration (the pointer is not null), and when the loop ends on a null pointer,
  also after options that were all rejected, that feature set is \<^verbatim>\<open>FromCppDefines()\<close>.
\<close>

theorem features_installed:
  assumes "ParseCompilerOptions ext runtime jc = Inr (jc', w)"
  shows "instruction_set_features (compiler_options jc') \<noteq> None \<and>
         (\<exists>st. scan_options ext (instruction_set (compiler_options jc')) (None, [])
                  (GetCompilerOptions runtime) = Inr st \<and>
               instruction_set_features (compiler_options jc') =
                 Some (case fst st of None \<Rightarrow> FromCppDefines ext | Some f \<Rightarrow> f))"
proof -
  from ParseCompilerOptions_Inr [OF assms] obtain opts features where
    r: "ResolveFeatures ext (instruction_set opts) (GetCompilerOptions runtime)
          = Inr (features, w)" and
    c: "compiler_options jc' =
          opts\<lparr>instruction_set_features := Some features,
                compiling_with_core_image :=
                  IsCoreImageFilename ext (GetImageLocation runtime)\<rparr>"
    by blast
  from c have isa: "instruction_set (compiler_options jc') = instruction_set opts"
    and fs: "instruction_set_features (compiler_options jc') = Some features"
    by simp_all
  from r obtain st where
    "scan_options ext (instruction_set opts) (None, []) (GetCompilerOptions runtime) = Inr st"
    and "features = (case fst st of None \<Rightarrow> FromCppDefines ext | Some f \<Rightarrow> f)"
    by (auto simp: ResolveFeatures_def split: sum.splits)
  with isa fs show ?thesis by auto
qed

theorem features_installed_witness:
  "scan_options demo_ext kX86 (None, []) [''--instruction-set-variant=bad'']
     = Inr (None, [''Error parsing --instruction-set-variant=bad message=Unknown variant bad'']) \<and>
   resolved_features demo_ext (demo_runtime [''--instruction-set-variant=bad''] False) demo_handle
     = Inr (Some (FromCppDefines demo_ext))"
proof -
  have "\<exists>h w. ParseCompilerOptions demo_ext
           (demo_runtime [''--instruction-set-variant=bad''] False) demo_handle = Inr (h, w)"
    by (simp add: resolver_defs demo_defs)
  then obtain h w where
    run: "ParseCompilerOptions demo_ext
            (demo_runtime [''--instruction-set-variant=bad''] False) demo_handle = Inr (h, w)"
    by blast
  have isa: "instruction_set (compiler_options h) = kX86"
    using run by (auto simp: resolver_defs demo_defs)
  have scan: "scan_options demo_ext kX86 (None, []) [''--instruction-set-variant=bad'']
     = Inr (None, [''Error parsing --instruction-set-variant=bad message=Unknown variant bad''])"
    by (simp add: resolver_defs demo_defs)
  from features_installed [OF run] isa scan
  have "instruction_set_features (compiler_options h) = Some (FromCppDefines demo_ext)"
    by (simp add: demo_runtime_def)
  with run scan show ?thesis by (simp add: resolved_features_def)
qed

subsection \<open>The debuggable flag\<close>

text \<open>
  Lines 63 to 65 test the flag itself: the resolved flag is the disjunction of the flag
  that the structured parse leaves and the host's live state.
\<close>

lemma debuggable_resolved:
  assumes "ParseOptions ext (GetCompilerOptions runtime) True
             (SetInlineMaxCodeUnits (kDefaultInlineMaxCodeUnits ext) (compiler_options jc))
           = Inr parsed"
    and "ParseCompilerOptions ext runtime jc = Inr (jc', w)"
  shows "debuggable (compiler_options jc') = (debuggable parsed \<or> IsJavaDebuggable runtime)"
proof -
  from ParseCompilerOptions_Inr [OF assms(2)] obtain opts features where
    b: "baseline_options ext runtime (compiler_options jc) = Inr opts" and
    c: "compiler_options jc' =
          opts\<lparr>instruction_set_features := Some features,
                compiling_with_core_image :=
                  IsCoreImageFilename ext (GetImageLocation runtime)\<rparr>"
    by blast
  from baseline_options_Inr [OF b] assms(1)
  have "debuggable opts = (debuggable parsed \<or> IsJavaDebuggable runtime)" by auto
  with c show ?thesis by simp
qed

text \<open>
  So a flag that the held configuration already has, and that the parse does not set,
  stays on at \<^verbatim>\<open>jit_update_options\<close>, whatever the host's state is by then.
\<close>

lemma debuggable_kept:
  assumes "ParseOptions ext (GetCompilerOptions runtime) True
             (SetInlineMaxCodeUnits (kDefaultInlineMaxCodeUnits ext) (compiler_options jc))
           = Inr parsed"
    and "debuggable parsed = debuggable (compiler_options jc)"
    and "debuggable (compiler_options jc)"
    and "jit_update_options ext runtime jc = Inr (jc', w)"
  shows "debuggable (compiler_options jc')"
  using debuggable_resolved [OF assms(1)] assms(2-4) by (simp add: jit_update_options_def)

text \<open>
  Claim C4 at a failing input. The compiler is created with no options while the host
  is debuggable, so the flag is inherited; \<^verbatim>\<open>jit_update_options\<close> then runs with no
  options once the host is no longer debuggable. The options provide no value, so the
  flag is to be the host's live state (lines 61 and 62 say so too), which is false; the
  code leaves the flag of the earlier run on.
\<close>

theorem debuggable_stale_after_update:
  "\<not> isl (jit_load demo_ext (demo_runtime [] True)) \<and>
   \<not> isl (jit_update_options demo_ext (demo_runtime [] False)
            (fst (projr (jit_load demo_ext (demo_runtime [] True))))) \<and>
   debuggable (compiler_options (fst (projr
      (jit_update_options demo_ext (demo_runtime [] False)
         (fst (projr (jit_load demo_ext (demo_runtime [] True)))))))) \<and>
   \<not> specified_debuggable None (IsJavaDebuggable (demo_runtime [] False))"
  by (simp add: jit_load_def jit_update_options_def JitCompiler_new_def resolver_defs demo_defs
        SetDedupeEnabled_def CompilerDriver_new_def specified_debuggable_def)

subsection \<open>Completion\<close>


lemma completed_instruction_set:
  assumes "ParseCompilerOptions ext runtime jc = Inr (jc', w)" and "kIsDebugBuild ext"
  shows "instruction_set (compiler_options jc') = runtime_isa_alias ext"
proof -
  from ParseCompilerOptions_Inr [OF assms(1)] obtain opts features where
    b: "baseline_options ext runtime (compiler_options jc) = Inr opts" and
    c: "compiler_options jc' =
          opts\<lparr>instruction_set_features := Some features,
                compiling_with_core_image :=
                  IsCoreImageFilename ext (GetImageLocation runtime)\<rparr>"
    by blast
  from baseline_options_Inr [OF b] assms(2)
  have "instruction_set opts = runtime_isa_alias ext" by auto
  with c show ?thesis by simp
qed



text \<open>
  The variant "default" is needed: were \<^verbatim>\<open>FromVariant\<close> to refuse it, a features
  option with no feature set before it would log the warning of line 92 and then call
  \<^verbatim>\<open>AddFeaturesFromString\<close> through the null pointer.
\<close>

lemma features_without_baseline_dereference_null:
  "baseline_options (demo_ext\<lparr>FromVariant := \<lambda>isa v. Inl ''no such variant''\<rparr>)
     (demo_runtime [''--instruction-set-features=avx''] False) (compiler_options demo_handle)
     = Inr (demo_options\<lparr>inline_max_code_units := 32, compile_pic := False\<rparr>) \<and>
   ParseCompilerOptions (demo_ext\<lparr>FromVariant := \<lambda>isa v. Inl ''no such variant''\<rparr>)
     (demo_runtime [''--instruction-set-features=avx''] False) demo_handle
     = Inl NullDereference"
  by (simp add: resolver_defs demo_defs)

subsection \<open>Rejected options\<close>

lemma ResolveFeatures_after_rejected:
  assumes "scan_options ext isa (None, []) earlier = Inr (features, warnings)"
    and "rejected_with ext isa features token = Some error_msg"
  shows "ResolveFeatures ext isa (earlier @ token # later) =
           map_sum id (\<lambda>res. (fst res, warnings @ parse_warning token error_msg # snd res))
             (ResolveFeatures ext isa later)"
proof -
  have "scan_options ext isa (None, []) (earlier @ token # later) =
          scan_options ext isa (None, warnings @ [parse_warning token error_msg]) later"
    using assms by (simp add: scan_options_append scan_option_rejected)
  also have "\<dots> = map_sum id
                     (\<lambda>st. (fst st, (warnings @ [parse_warning token error_msg]) @ snd st))
                     (scan_options ext isa (None, []) later)"
    by (rule scan_options_warnings)
  finally show ?thesis
    by (cases "scan_options ext isa (None, []) later") (simp_all add: ResolveFeatures_def)
qed

text \<open>
  Claim C1, as the code has it. An option that the loop rejects is logged as a warning
  and leaves the pointer null: what the earlier options had built is discarded, and the
  resolved feature set is the one that the later options alone give. The warnings of the
  earlier options stay in the log.
\<close>

theorem rejected_option_resets_features:
  assumes "scan_options ext isa (None, []) earlier = Inr (features, warnings)"
    and "rejected_with ext isa features token = Some error_msg"
  shows "scan_options ext isa (None, []) (earlier @ [token])
           = Inr (None, warnings @ [parse_warning token error_msg]) \<and>
         ResolveFeatures ext isa (earlier @ token # later) =
           map_sum id (\<lambda>res. (fst res, warnings @ parse_warning token error_msg # snd res))
             (ResolveFeatures ext isa later)"
  using assms ResolveFeatures_after_rejected [OF assms]
  by (simp add: scan_options_append scan_option_rejected)

theorem rejected_option_resets_features_witness:
  "ResolveFeatures demo_ext kX86
     [''--instruction-set-variant=silvermont'', ''--instruction-set-features=bad'',
      ''--instruction-set-features=avx'']
   = Inr (\<lparr>variant = ''default'', overlay = [''avx'']\<rparr>,
          [''Error parsing --instruction-set-features=bad message=Unknown feature bad''])"
proof -
  have s: "scan_options demo_ext kX86 (None, []) [''--instruction-set-variant=silvermont'']
             = Inr (Some \<lparr>variant = ''silvermont'', overlay = []\<rparr>, [])"
    by (simp add: resolver_defs demo_defs)
  have r: "rejected_with demo_ext kX86 (Some \<lparr>variant = ''silvermont'', overlay = []\<rparr>)
             ''--instruction-set-features=bad'' = Some ''Unknown feature bad''"
    by (simp add: rejected_with_def resolver_defs demo_defs)
  have l: "ResolveFeatures demo_ext kX86 [''--instruction-set-features=avx'']
             = Inr (\<lparr>variant = ''default'', overlay = [''avx'']\<rparr>, [])"
    by (simp add: resolver_defs demo_defs)
  from rejected_option_resets_features
         [OF s r, of "[''--instruction-set-features=avx'']"] l
  show ?thesis by (simp add: parse_warning_def)
qed

text \<open>
  Claim C1, as it is worded, fails: after an accepted variant, a rejected variant leaves
  nothing of the accepted one. The resolved feature set is the host's, where without the
  rejected option it is the variant's.
\<close>

theorem accepted_variant_lost:
  "map_sum id fst (ResolveFeatures demo_ext kX86
      [''--instruction-set-variant=silvermont'', ''--instruction-set-variant=bad''])
     = Inr \<lparr>variant = ''host'', overlay = []\<rparr> \<and>
   map_sum id fst (ResolveFeatures demo_ext kX86 [''--instruction-set-variant=silvermont''])
     = Inr \<lparr>variant = ''silvermont'', overlay = []\<rparr>"
  by (simp add: resolver_defs demo_defs)

subsection \<open>The shapes of the resolved feature set\<close>

lemma scan_variant_accepted:
  assumes "CHR 0x00 \<notin> set v" and "FromVariant ext isa v = Inr base"
  shows "scan_option ext isa st (variant_prefix @ v) = Inr (Some base, snd st)"
  using assms by (simp add: scan_option_def starts_with_append option_value_append)

lemma scan_features_accepted:
  assumes "CHR 0x00 \<notin> set x"
    and "(case features of Some f \<Rightarrow> Inr f | None \<Rightarrow> FromVariant ext isa ''default'') = Inr base"
    and "AddFeaturesFromString ext base x = Inr r"
  shows "scan_option ext isa (features, warnings) (features_prefix @ x) = Inr (Some r, warnings)"
  using assms
  by (auto simp: scan_option_def starts_with_append option_value_append
        features_prefix_not_variant split: option.splits sum.splits)

lemma scan_variant_rejected:
  assumes "starts_with token variant_prefix"
    and "FromVariant ext isa (option_value variant_prefix token) = Inl error_msg"
  shows "scan_option ext isa st token = Inr (None, snd st @ [parse_warning token error_msg])"
  using assms by (simp add: scan_option_def)

text \<open>
  Claim C2. The options hold a variant option that \<^verbatim>\<open>FromVariant\<close> refuses and, after
  it, a features option \<open>X\<close> that is valid on the "default" baseline; no other variant or
  features option follows the refused one. Then the resolver completes, and the feature
  set it installs is "default" overlaid with \<open>X\<close>.
\<close>

theorem features_after_rejected_variant:
  assumes base: "baseline_options ext runtime (compiler_options jc) = Inr opts"
    and tokens: "GetCompilerOptions runtime =
                   before @ bad # between @ (features_prefix @ X) # after"
    and bad: "starts_with bad variant_prefix"
             "FromVariant ext (instruction_set opts) (option_value variant_prefix bad)
                = Inl error_msg"
    and others: "list_all (\<lambda>t. \<not> feature_option t) between"
                "list_all (\<lambda>t. \<not> feature_option t) after"
    and X: "CHR 0x00 \<notin> set X"
    and dflt: "FromVariant ext (instruction_set opts) ''default'' = Inr d"
    and valid: "AddFeaturesFromString ext d X = Inr r"
  shows "\<exists>jc' w. ParseCompilerOptions ext runtime jc = Inr (jc', w) \<and>
                 instruction_set_features (compiler_options jc') = Some r"
proof -
  let ?isa = "instruction_set opts"
  from scan_options_total [OF dflt] obtain fs ws where
    b: "scan_options ext ?isa (None, []) before = Inr (fs, ws)"
    by (metis surj_pair)
  have s1: "scan_option ext ?isa (fs, ws) bad = Inr (None, ws @ [parse_warning bad error_msg])"
    using scan_variant_rejected [OF bad, of "(fs, ws)"] by simp
  have s2: "scan_option ext ?isa (None, ws @ [parse_warning bad error_msg]) (features_prefix @ X)
              = Inr (Some r, ws @ [parse_warning bad error_msg])"
    using scan_features_accepted [OF X _ valid, where features = None] dflt by simp
  have "scan_options ext ?isa (None, []) (GetCompilerOptions runtime)
          = Inr (Some r, ws @ [parse_warning bad error_msg])"
    unfolding tokens
    by (simp add: scan_options_append b s1 s2 scan_options_others [OF others(1)]
          scan_options_others [OF others(2)])
  then have "ResolveFeatures ext ?isa (GetCompilerOptions runtime)
               = Inr (r, ws @ [parse_warning bad error_msg])"
    by (simp add: ResolveFeatures_def)
  with base show ?thesis by (simp add: ParseCompilerOptions_def Let_def)
qed

theorem features_after_rejected_variant_witness:
  "resolved_features demo_ext
     (demo_runtime [''--instruction-set-variant=silvermont'', ''--instruction-set-variant=bad'',
                    ''-g'', ''--instruction-set-features=avx'', ''--debuggable''] False)
     demo_handle
   = Inr (Some \<lparr>variant = ''default'', overlay = [''avx'']\<rparr>)"
proof -
  let ?rt = "demo_runtime [''--instruction-set-variant=silvermont'',
               ''--instruction-set-variant=bad'', ''-g'', ''--instruction-set-features=avx'',
               ''--debuggable''] False"
  have base: "baseline_options demo_ext ?rt (compiler_options demo_handle)
     = Inr (demo_options\<lparr>inline_max_code_units := 32, compile_pic := False,
                         debuggable := True, generate_debug_info := True\<rparr>)"
    by (simp add: resolver_defs demo_defs)
  have tokens: "GetCompilerOptions ?rt =
      [''--instruction-set-variant=silvermont''] @ ''--instruction-set-variant=bad'' #
      [''-g''] @ (features_prefix @ ''avx'') # [''--debuggable'']"
    by (simp add: demo_runtime_def features_prefix_def)
  have bad1: "starts_with ''--instruction-set-variant=bad'' variant_prefix"
    by (simp add: variant_prefix_def)
  have bad2: "FromVariant demo_ext
      (instruction_set (demo_options\<lparr>inline_max_code_units := 32, compile_pic := False,
                         debuggable := True, generate_debug_info := True\<rparr>))
      (option_value variant_prefix ''--instruction-set-variant=bad'') = Inl ''Unknown variant bad''"
    by (simp add: resolver_defs demo_defs)
  have o1: "list_all (\<lambda>t. \<not> feature_option t) [''-g'']"
    and o2: "list_all (\<lambda>t. \<not> feature_option t) [''--debuggable'']"
    by (simp_all add: feature_option_def variant_prefix_def features_prefix_def)
  have X: "CHR 0x00 \<notin> set ''avx''" by simp
  have dflt: "FromVariant demo_ext
      (instruction_set (demo_options\<lparr>inline_max_code_units := 32, compile_pic := False,
                         debuggable := True, generate_debug_info := True\<rparr>))
      ''default'' = Inr \<lparr>variant = ''default'', overlay = []\<rparr>"
    by (simp add: demo_defs)
  have valid: "AddFeaturesFromString demo_ext \<lparr>variant = ''default'', overlay = []\<rparr> ''avx''
                 = Inr \<lparr>variant = ''default'', overlay = [''avx'']\<rparr>"
    by (simp add: demo_defs)
  from features_after_rejected_variant [OF base tokens bad1 bad2 o1 o2 X dflt valid]
  show ?thesis by (auto simp: resolved_features_def)
qed

text \<open>
  Claim C3. With the baseline of lines 47 to 72 in place, the feature set that the
  resolver installs is: for the one option \<^verbatim>\<open>--instruction-set-features=X\<close>, "default"
  overlaid with \<open>X\<close>; for \<^verbatim>\<open>--instruction-set-variant=V\<close> followed by
  \<^verbatim>\<open>--instruction-set-features=X\<close>, the variant \<open>V\<close> overlaid with \<open>X\<close>; for options
  none of which is a variant or features option, \<^verbatim>\<open>FromCppDefines()\<close>.
\<close>

theorem resolved_feature_shapes:
  assumes base: "baseline_options ext runtime (compiler_options jc) = Inr opts"
  shows "(GetCompilerOptions runtime = [features_prefix @ X] \<and> CHR 0x00 \<notin> set X \<and>
          FromVariant ext (instruction_set opts) ''default'' = Inr d \<and>
          AddFeaturesFromString ext d X = Inr r
            \<longrightarrow> resolved_features ext runtime jc = Inr (Some r)) \<and>
         (GetCompilerOptions runtime = [variant_prefix @ V, features_prefix @ X] \<and>
          CHR 0x00 \<notin> set V \<and> CHR 0x00 \<notin> set X \<and>
          FromVariant ext (instruction_set opts) V = Inr b \<and>
          AddFeaturesFromString ext b X = Inr r
            \<longrightarrow> resolved_features ext runtime jc = Inr (Some r)) \<and>
         (list_all (\<lambda>t. \<not> feature_option t) (GetCompilerOptions runtime)
            \<longrightarrow> resolved_features ext runtime jc = Inr (Some (FromCppDefines ext)))"
proof (intro conjI impI)
  let ?isa = "instruction_set opts"
  assume a: "GetCompilerOptions runtime = [features_prefix @ X] \<and> CHR 0x00 \<notin> set X \<and>
             FromVariant ext ?isa ''default'' = Inr d \<and> AddFeaturesFromString ext d X = Inr r"
  then have "scan_option ext ?isa (None, []) (features_prefix @ X) = Inr (Some r, [])"
    using scan_features_accepted [where features = None and ext = ext and isa = ?isa] by simp
  with a have "ResolveFeatures ext ?isa (GetCompilerOptions runtime) = Inr (r, [])"
    by (simp add: ResolveFeatures_def)
  then show "resolved_features ext runtime jc = Inr (Some r)"
    by (rule ParseCompilerOptions_features [OF base])
next
  let ?isa = "instruction_set opts"
  assume a: "GetCompilerOptions runtime = [variant_prefix @ V, features_prefix @ X] \<and>
             CHR 0x00 \<notin> set V \<and> CHR 0x00 \<notin> set X \<and>
             FromVariant ext ?isa V = Inr b \<and> AddFeaturesFromString ext b X = Inr r"
  then have s1: "scan_option ext ?isa (None, []) (variant_prefix @ V) = Inr (Some b, [])"
    using scan_variant_accepted [where st = "(None, [])" and ext = ext and isa = ?isa] by simp
  from a have s2: "scan_option ext ?isa (Some b, []) (features_prefix @ X) = Inr (Some r, [])"
    using scan_features_accepted [where features = "Some b" and ext = ext and isa = ?isa]
    by simp
  from a s1 s2 have "ResolveFeatures ext ?isa (GetCompilerOptions runtime) = Inr (r, [])"
    by (simp add: ResolveFeatures_def)
  then show "resolved_features ext runtime jc = Inr (Some r)"
    by (rule ParseCompilerOptions_features [OF base])
next
  let ?isa = "instruction_set opts"
  assume "list_all (\<lambda>t. \<not> feature_option t) (GetCompilerOptions runtime)"
  then have "ResolveFeatures ext ?isa (GetCompilerOptions runtime)
               = Inr (FromCppDefines ext, [])"
    by (simp add: ResolveFeatures_def scan_options_others)
  then show "resolved_features ext runtime jc = Inr (Some (FromCppDefines ext))"
    by (rule ParseCompilerOptions_features [OF base])
qed

theorem resolved_feature_shapes_witness:
  "resolved_features demo_ext (demo_runtime [''--instruction-set-features=avx''] False)
     demo_handle = Inr (Some \<lparr>variant = ''default'', overlay = [''avx'']\<rparr>) \<and>
   resolved_features demo_ext
     (demo_runtime [''--instruction-set-variant=silvermont'',
                    ''--instruction-set-features=popcnt''] False)
     demo_handle = Inr (Some \<lparr>variant = ''silvermont'', overlay = [''popcnt'']\<rparr>) \<and>
   resolved_features demo_ext (demo_runtime [] True) demo_handle
     = Inr (Some \<lparr>variant = ''host'', overlay = []\<rparr>) \<and>
   resolved_features demo_ext (demo_runtime [''--debuggable'', ''--verbose''] False) demo_handle
     = Inr (Some \<lparr>variant = ''host'', overlay = []\<rparr>)"
proof -
  let ?o1 = "demo_options\<lparr>inline_max_code_units := 32, compile_pic := False\<rparr>"
  let ?o2 = "demo_options\<lparr>inline_max_code_units := 32, compile_pic := False,
                          debuggable := True\<rparr>"
  have b1: "baseline_options demo_ext (demo_runtime [''--instruction-set-features=avx''] False)
              (compiler_options demo_handle) = Inr ?o1"
    by (simp add: resolver_defs demo_defs)
  have b2: "baseline_options demo_ext
              (demo_runtime [''--instruction-set-variant=silvermont'',
                             ''--instruction-set-features=popcnt''] False)
              (compiler_options demo_handle) = Inr ?o1"
    by (simp add: resolver_defs demo_defs)
  have b3: "baseline_options demo_ext (demo_runtime [] True) (compiler_options demo_handle)
              = Inr ?o2"
    by (simp add: resolver_defs demo_defs)
  have b4: "baseline_options demo_ext (demo_runtime [''--debuggable'', ''--verbose''] False)
              (compiler_options demo_handle) = Inr ?o2"
    by (simp add: resolver_defs demo_defs)
  have t1: "GetCompilerOptions (demo_runtime [''--instruction-set-features=avx''] False)
              = [features_prefix @ ''avx'']"
    by (simp add: demo_runtime_def features_prefix_def)
  have t2: "GetCompilerOptions
              (demo_runtime [''--instruction-set-variant=silvermont'',
                             ''--instruction-set-features=popcnt''] False)
              = [variant_prefix @ ''silvermont'', features_prefix @ ''popcnt'']"
    by (simp add: demo_runtime_def features_prefix_def variant_prefix_def)
  have t3: "list_all (\<lambda>t. \<not> feature_option t) (GetCompilerOptions (demo_runtime [] True))"
    by (simp add: demo_runtime_def)
  have t4: "list_all (\<lambda>t. \<not> feature_option t)
              (GetCompilerOptions (demo_runtime [''--debuggable'', ''--verbose''] False))"
    by (simp add: demo_runtime_def feature_option_def features_prefix_def variant_prefix_def)
  have d: "FromVariant demo_ext (instruction_set ?o1) ''default''
             = Inr \<lparr>variant = ''default'', overlay = []\<rparr>"
    and a: "AddFeaturesFromString demo_ext \<lparr>variant = ''default'', overlay = []\<rparr> ''avx''
              = Inr \<lparr>variant = ''default'', overlay = [''avx'']\<rparr>"
    and v: "FromVariant demo_ext (instruction_set ?o1) ''silvermont''
              = Inr \<lparr>variant = ''silvermont'', overlay = []\<rparr>"
    and p: "AddFeaturesFromString demo_ext \<lparr>variant = ''silvermont'', overlay = []\<rparr> ''popcnt''
              = Inr \<lparr>variant = ''silvermont'', overlay = [''popcnt'']\<rparr>"
    by (simp_all add: demo_defs)
  have n: "CHR 0x00 \<notin> set ''avx''" "CHR 0x00 \<notin> set ''silvermont''"
    "CHR 0x00 \<notin> set ''popcnt''"
    by simp_all
  have h: "FromCppDefines demo_ext = \<lparr>variant = ''host'', overlay = []\<rparr>"
    by (simp add: demo_ext_def)
  from resolved_feature_shapes [OF b1, where X = "''avx''"] t1 d a n
  have c1: "resolved_features demo_ext (demo_runtime [''--instruction-set-features=avx''] False)
     demo_handle = Inr (Some \<lparr>variant = ''default'', overlay = [''avx'']\<rparr>)"
    by blast
  from resolved_feature_shapes [OF b2, where X = "''popcnt''" and V = "''silvermont''"]
    t2 v p n
  have c2: "resolved_features demo_ext
     (demo_runtime [''--instruction-set-variant=silvermont'',
                    ''--instruction-set-features=popcnt''] False)
     demo_handle = Inr (Some \<lparr>variant = ''silvermont'', overlay = [''popcnt'']\<rparr>)"
    by blast
  from resolved_feature_shapes [OF b3] t3 h
  have c3: "resolved_features demo_ext (demo_runtime [] True) demo_handle
     = Inr (Some \<lparr>variant = ''host'', overlay = []\<rparr>)"
    by simp
  from resolved_feature_shapes [OF b4] t4 h
  have c4: "resolved_features demo_ext (demo_runtime [''--debuggable'', ''--verbose''] False)
     demo_handle = Inr (Some \<lparr>variant = ''host'', overlay = []\<rparr>)"
    by simp
  from c1 c2 c3 c4 show ?thesis by simp
qed

subsection \<open>Compiling a method\<close>

lemma backend_calls_append:
  "backend_calls (xs @ ys) = backend_calls xs @ backend_calls ys"
  by (induction xs rule: backend_calls.induct) simp_all

text \<open>
  Claim C7. For a call that meets the preconditions of \<^verbatim>\<open>CompileMethod\<close> (no proxy
  method, a resolved declaring class, no pending exception) on a compiler that has its
  driver: the backend is called once, with \<^verbatim>\<open>baseline\<close> false and with the code cache
  and the logger of the compiler; \<^verbatim>\<open>TrimMaps\<close> is called next, whatever the backend
  answered; the logger handed to \<^verbatim>\<open>AddTimingLogger\<close> holds the two timings; and the
  result is the backend's answer.
\<close>

theorem compile_method_calls:
  assumes "compiler_driver jc = Some driver"
    and "\<not> IsProxyMethod method" and "declaring_class_resolved method"
    and "\<not> IsExceptionPending self"
  shows "\<exists>args logger runtime'.
           CompileMethod ext JitCompile jc runtime self method osr
             = Inr (fst (JitCompile args), runtime') \<and>
           calls runtime' =
             calls runtime @ [JitCompileCall args, TrimMapsCall, AddTimingLoggerCall logger] \<and>
           backend_calls (calls runtime') = backend_calls (calls runtime) @ [args] \<and>
           \<not> arg_baseline args \<and>
           arg_compiler args = compiler_kind driver \<and>
           arg_code_cache args = code_cache runtime \<and>
           arg_jit_logger args = jit_logger jc \<and>
           arg_self args = self \<and> arg_method args = method \<and> arg_osr args = osr \<and>
           code_cache runtime' = snd (JitCompile args) \<and>
           logger_name logger = ''JIT compiler timing logger'' \<and>
           timings logger =
             [StartTiming ''Compiling'', EndTiming, StartTiming ''TrimMaps'', EndTiming]"
proof -
  let ?args = "\<lparr>arg_compiler = compiler_kind driver, arg_self = self,
                arg_code_cache = code_cache runtime, arg_method = method,
                arg_baseline = False, arg_osr = osr, arg_jit_logger = jit_logger jc\<rparr>"
  let ?logger = "\<lparr>logger_name = ''JIT compiler timing logger'', precise = True,
                  verbose = vlog_jit runtime, timing_kind = kThreadCpu,
                  timings = [StartTiming ''Compiling'', EndTiming,
                             StartTiming ''TrimMaps'', EndTiming]\<rparr>"
  let ?runtime' = "runtime\<lparr>code_cache := snd (JitCompile ?args),
                     calls := calls runtime @
                       [JitCompileCall ?args, TrimMapsCall, AddTimingLoggerCall ?logger]\<rparr>"
  have "CompileMethod ext JitCompile jc runtime self method osr
          = Inr (fst (JitCompile ?args), ?runtime')"
    using assms by (simp add: CompileMethod_def AssertNoPendingException_def Let_def)
  moreover have "backend_calls (calls ?runtime') = backend_calls (calls runtime) @ [?args]"
    by (simp add: backend_calls_append)
  ultimately show ?thesis
    by (intro exI [of _ ?args] exI [of _ ?logger] exI [of _ ?runtime']) simp
qed

theorem compile_method_calls_witness:
  "CompileMethod demo_ext (\<lambda>args. (False, arg_code_cache args))
     (demo_handle\<lparr>compiler_driver :=
        Some (SetDedupeEnabled False (CompilerDriver_new kOptimizing 1 (- 1)))\<rparr>)
     \<lparr>code_cache = [], calls = [], vlog_jit = False\<rparr>
     \<lparr>thread_id = 1, IsExceptionPending = False\<rparr>
     \<lparr>method_index = 7, IsProxyMethod = False, declaring_class_resolved = True\<rparr> True
   = Inr (False,
      \<lparr>code_cache = ([] :: nat list),
       calls =
         [JitCompileCall
            \<lparr>arg_compiler = kOptimizing,
             arg_self = \<lparr>thread_id = 1, IsExceptionPending = False\<rparr>,
             arg_code_cache = [],
             arg_method = \<lparr>method_index = 7, IsProxyMethod = False,
                            declaring_class_resolved = True\<rparr>,
             arg_baseline = False, arg_osr = True, arg_jit_logger = None\<rparr>,
          TrimMapsCall,
          AddTimingLoggerCall
            \<lparr>logger_name = ''JIT compiler timing logger'', precise = True,
             verbose = False, timing_kind = kThreadCpu,
             timings = [StartTiming ''Compiling'', EndTiming,
                        StartTiming ''TrimMaps'', EndTiming]\<rparr>],
       vlog_jit = False\<rparr>)"
proof -
  let ?jc = "demo_handle\<lparr>compiler_driver :=
        Some (SetDedupeEnabled False (CompilerDriver_new kOptimizing 1 (- 1)))\<rparr>"
  let ?rt = "\<lparr>code_cache = ([] :: nat list), calls = [], vlog_jit = False\<rparr>"
  let ?self = "\<lparr>thread_id = 1, IsExceptionPending = False\<rparr>"
  let ?m = "\<lparr>method_index = 7, IsProxyMethod = False, declaring_class_resolved = True\<rparr>"
  have d: "compiler_driver ?jc
             = Some (SetDedupeEnabled False (CompilerDriver_new kOptimizing 1 (- 1)))"
    by simp
  have p: "\<not> IsProxyMethod ?m" "declaring_class_resolved ?m" "\<not> IsExceptionPending ?self"
    by simp_all
  from compile_method_calls [OF d p, of demo_ext "\<lambda>args. (False, arg_code_cache args)" ?rt True]
  obtain args logger runtime' where
    r: "CompileMethod demo_ext (\<lambda>args. (False, arg_code_cache args)) ?jc ?rt ?self ?m True
          = Inr (False, runtime')"
    and c: "calls runtime' = [JitCompileCall args, TrimMapsCall, AddTimingLoggerCall logger]"
    by auto
  have "runtime' = \<lparr>code_cache = [], calls = calls runtime', vlog_jit = False\<rparr>"
    using r by (auto simp: CompileMethod_def AssertNoPendingException_def Let_def demo_defs
          split: if_splits)
  moreover have "calls runtime' = [JitCompileCall
            \<lparr>arg_compiler = kOptimizing,
             arg_self = \<lparr>thread_id = 1, IsExceptionPending = False\<rparr>,
             arg_code_cache = [],
             arg_method = \<lparr>method_index = 7, IsProxyMethod = False,
                            declaring_class_resolved = True\<rparr>,
             arg_baseline = False, arg_osr = True, arg_jit_logger = None\<rparr>,
          TrimMapsCall,
          AddTimingLoggerCall
            \<lparr>logger_name = ''JIT compiler timing logger'', precise = True,
             verbose = False, timing_kind = kThreadCpu,
             timings = [StartTiming ''Compiling'', EndTiming,
                        StartTiming ''TrimMaps'', EndTiming]\<rparr>]"
    using r by (auto simp: CompileMethod_def AssertNoPendingException_def Let_def demo_defs
                  SetDedupeEnabled_def
                  CompilerDriver_new_def split: if_splits)
  ultimately show ?thesis using r by simp
qed

subsection \<open>Deduplication\<close>

lemma store_artifact_no_dedupe:
  "\<not> dedupe_enabled driver \<Longrightarrow> store_artifact driver m code es = es @ [([m], code)]"
  by (induction es) simp_all

lemma JitCompiler_new_driver:
  assumes "JitCompiler_new ext runtime = Inr (jc, w)"
  shows "compiler_driver jc =
           Some \<lparr>compiler_kind = kOptimizing, thread_count = 1, swap_fd = - 1,
                 dedupe_enabled = False\<rparr>"
  using assms
  by (auto simp: JitCompiler_new_def SetDedupeEnabled_def CompilerDriver_new_def
        split: sum.splits)

text \<open>
  Claim C8. The compiler that \<^verbatim>\<open>jit_load\<close> creates has an optimizing driver with
  deduplication disabled. On the store of artifacts this means that every compiled method
  gets an entry of its own, also when its code is byte-identical to a stored one, and that
  of two such methods either can be evicted while the entry of the other stays.
\<close>

theorem create_disables_dedupe:
  assumes "jit_load ext runtime = Inr (jc, w)"
  shows "\<exists>driver. compiler_driver jc = Some driver \<and>
           \<not> dedupe_enabled driver \<and> compiler_kind driver = kOptimizing \<and>
           store_artifact driver m1 code es = es @ [([m1], code)] \<and>
           (m1 \<noteq> m2 \<longrightarrow>
              store_artifact driver m2 code (store_artifact driver m1 code [])
                = [([m1], code), ([m2], code)] \<and>
              evict_artifact m1
                  (store_artifact driver m2 code (store_artifact driver m1 code []))
                = [([m2], code)] \<and>
              evict_artifact m2
                  (store_artifact driver m2 code (store_artifact driver m1 code []))
                = [([m1], code)])"
proof -
  let ?driver = "\<lparr>compiler_kind = kOptimizing, thread_count = 1, swap_fd = - 1,
                  dedupe_enabled = False\<rparr>"
  from assms have "compiler_driver jc = Some ?driver"
    by (simp add: jit_load_def JitCompiler_new_driver)
  moreover have "store_artifact ?driver m code' es' = es' @ [([m], code')]" for m code' es'
    by (simp add: store_artifact_no_dedupe)
  ultimately show ?thesis
    by (intro exI [of _ ?driver]) (auto simp: evict_artifact_def)
qed

theorem create_disables_dedupe_witness:
  "\<not> isl (jit_load demo_ext (demo_runtime [] False)) \<and>
   compiler_driver (fst (projr (jit_load demo_ext (demo_runtime [] False))))
     = Some \<lparr>compiler_kind = kOptimizing, thread_count = 1, swap_fd = - 1,
             dedupe_enabled = False\<rparr> \<and>
   store_artifact
     (the (compiler_driver (fst (projr (jit_load demo_ext (demo_runtime [] False))))))
     2 [144, 195]
     (store_artifact
        (the (compiler_driver (fst (projr (jit_load demo_ext (demo_runtime [] False))))))
        1 [144, 195] [])
     = [([1], [144, 195]), ([2], [144, 195])]"
proof -
  have "\<exists>h w. jit_load demo_ext (demo_runtime [] False) = Inr (h, w)"
    by (simp add: jit_load_def JitCompiler_new_def resolver_defs demo_defs)
  then obtain h w where l: "jit_load demo_ext (demo_runtime [] False) = Inr (h, w)"
    by blast
  have ne: "(1::nat) \<noteq> 2" by simp
  from create_disables_dedupe [OF l, of 1 "[144, 195]" "[]" 2] ne
  obtain driver where "compiler_driver h = Some driver"
    and "\<not> dedupe_enabled driver" and "compiler_kind driver = kOptimizing"
    and "store_artifact driver 2 [144, 195] (store_artifact driver 1 [144, 195] [])
           = [([1], [144, 195]), ([2], [144, 195])]"
    by auto
  moreover have "compiler_driver h =
           Some \<lparr>compiler_kind = kOptimizing, thread_count = 1, swap_fd = - 1,
                 dedupe_enabled = False\<rparr>"
    using l by (simp add: jit_load_def JitCompiler_new_driver)
  ultimately show ?thesis using l by simp
qed

subsection \<open>Unrecognized tokens\<close>

lemma ResolveFeatures_not_fatal: "ResolveFeatures ext isa tokens \<noteq> Inl (Fatal e)"
  by (auto simp: ResolveFeatures_def split: sum.splits dest: scan_options_fault)

lemma ParseCompilerOptions_fatal:
  "(ParseCompilerOptions ext runtime jc = Inl (Fatal e)) =
   (ParseOptions ext (GetCompilerOptions runtime) True
      (SetInlineMaxCodeUnits (kDefaultInlineMaxCodeUnits ext) (compiler_options jc)) = Inl e)"
proof (cases "ParseOptions ext (GetCompilerOptions runtime) True
      (SetInlineMaxCodeUnits (kDefaultInlineMaxCodeUnits ext) (compiler_options jc))")
  case (Inl a)
  then show ?thesis by (simp add: ParseCompilerOptions_def baseline_options_def)
next
  case (Inr parsed)
  then have "baseline_options ext runtime (compiler_options jc) \<noteq> Inl (Fatal e)"
    by (simp add: baseline_options_def Let_def)
  then have "ParseCompilerOptions ext runtime jc \<noteq> Inl (Fatal e)"
    using ResolveFeatures_not_fatal [of ext _ "GetCompilerOptions runtime" e]
    by (auto simp: ParseCompilerOptions_def Let_def split: sum.splits)
  with Inr show ?thesis by simp
qed

lemma structured_parse_skip:
  "classify token = Unrecognized \<Longrightarrow>
   structured_parse classify (before @ token # after) True opts
     = structured_parse classify (before @ after) True opts"
  by (induction before arbitrary: opts) (simp_all split: token_kind.splits)

lemma structured_parse_unrecognized:
  "list_all (\<lambda>t. classify t = Unrecognized) tokens \<Longrightarrow>
   structured_parse classify tokens True opts = Inr opts"
  by (induction tokens) simp_all

text \<open>
  Claim C9. The resolver takes no tolerance flag: it reaches \<^verbatim>\<open>LOG(FATAL)\<close> exactly
  when the structured parser, called with \<^verbatim>\<open>ignore_unrecognized\<close> true, fails, and with
  the message of that failure. With the structured parser of the specification, an
  unrecognized token changes nothing to that: the resolver is fatal with it exactly when
  it is fatal without it, and tokens that are all unrecognized are never fatal.
\<close>

theorem unrecognized_tokens_tolerated:
  "((ParseCompilerOptions ext runtime jc = Inl (Fatal e)) =
    (ParseOptions ext (GetCompilerOptions runtime) True
       (SetInlineMaxCodeUnits (kDefaultInlineMaxCodeUnits ext) (compiler_options jc)) = Inl e)) \<and>
   (ParseOptions ext = structured_parse classify \<and> classify token = Unrecognized \<longrightarrow>
      (ParseCompilerOptions ext (runtime\<lparr>GetCompilerOptions := before @ token # after\<rparr>) jc
         = Inl (Fatal e)) =
      (ParseCompilerOptions ext (runtime\<lparr>GetCompilerOptions := before @ after\<rparr>) jc
         = Inl (Fatal e))) \<and>
   (ParseOptions ext = structured_parse classify \<and>
    list_all (\<lambda>t. classify t = Unrecognized) (GetCompilerOptions runtime) \<longrightarrow>
      ParseCompilerOptions ext runtime jc \<noteq> Inl (Fatal e))"
  by (simp add: ParseCompilerOptions_fatal structured_parse_skip structured_parse_unrecognized)

theorem unrecognized_tokens_tolerated_witness:
  "ParseCompilerOptions demo_ext
     (demo_runtime [''--debuggable'', ''--inline-max-code-units=x''] False) demo_handle
     = Inl (Fatal ''Failed to parse x'') \<and>
   demo_classify ''--frobnicate'' = Unrecognized \<and>
   ParseCompilerOptions demo_ext
     (demo_runtime [''--debuggable'', ''--frobnicate'', ''--inline-max-code-units=x''] False)
     demo_handle
     = Inl (Fatal ''Failed to parse x'') \<and>
   ParseCompilerOptions demo_ext (demo_runtime [''--frobnicate'', ''--verbose''] False)
     demo_handle \<noteq> Inl (Fatal ''Unknown argument: --frobnicate'')"
proof -
  have p: "ParseOptions demo_ext = structured_parse demo_classify"
    by (simp add: demo_ext_def)
  have u: "demo_classify ''--frobnicate'' = Unrecognized"
    by (simp add: demo_classify_def)
  have us: "list_all (\<lambda>t. demo_classify t = Unrecognized)
              (GetCompilerOptions (demo_runtime [''--frobnicate'', ''--verbose''] False))"
    by (simp add: demo_classify_def demo_runtime_def)
  have f: "ParseOptions demo_ext
             (GetCompilerOptions
                (demo_runtime [''--debuggable'', ''--inline-max-code-units=x''] False)) True
             (SetInlineMaxCodeUnits (kDefaultInlineMaxCodeUnits demo_ext)
                (compiler_options demo_handle)) = Inl ''Failed to parse x''"
    by (simp add: demo_defs)
  note t = unrecognized_tokens_tolerated [where ext = demo_ext and classify = demo_classify
             and jc = demo_handle]
  from t [where runtime = "demo_runtime [''--debuggable'', ''--inline-max-code-units=x''] False"
            and e = "''Failed to parse x''"] f
  have c1: "ParseCompilerOptions demo_ext
     (demo_runtime [''--debuggable'', ''--inline-max-code-units=x''] False) demo_handle
     = Inl (Fatal ''Failed to parse x'')"
    by blast
  from t [where runtime = "demo_runtime [] False" and token = "''--frobnicate''"
            and before = "[''--debuggable'']" and after = "[''--inline-max-code-units=x'']"
            and e = "''Failed to parse x''"] p u c1
  have c2: "ParseCompilerOptions demo_ext
     (demo_runtime [''--debuggable'', ''--frobnicate'', ''--inline-max-code-units=x''] False)
     demo_handle = Inl (Fatal ''Failed to parse x'')"
    by (simp add: demo_runtime_def)
  from t [where runtime = "demo_runtime [''--frobnicate'', ''--verbose''] False"
            and e = "''Unknown argument: --frobnicate''"] p us
  have c3: "ParseCompilerOptions demo_ext (demo_runtime [''--frobnicate'', ''--verbose''] False)
     demo_handle \<noteq> Inl (Fatal ''Unknown argument: --frobnicate'')"
    by blast
  from c1 c2 c3 u show ?thesis by simp
qed

end
